theory Spec2Isabelle
  imports Complex_Main
begin

section \<open>Python values, exceptions and arithmetic\<close>

text \<open>
  The component under study is \<^verbatim>\<open>picwriter/components/gratingcoupler.py\<close>: the class
  \<^verbatim>\<open>GratingCoupler\<close> with its constructor, \<^verbatim>\<open>build_cell\<close> and \<^verbatim>\<open>build_ports\<close>.

  Numbers are modelled as real numbers: Python's \<^verbatim>\<open>int\<close> and \<^verbatim>\<open>float\<close> arguments are read
  as the reals they denote, without rounding or overflow. A numpy result that is not a
  finite number (\<^verbatim>\<open>nan\<close>, \<^verbatim>\<open>inf\<close>) is \<open>None\<close>. Every exception the code of the class can
  raise is a value of \<open>error\<close>.
\<close>

datatype error = ValueError | ZeroDivisionError | AssertionError | IndexError | UnboundLocalError

type_synonym point = "real \<times> real"

text \<open>\<^verbatim>\<open>x // y\<close> on numbers: the floor of the quotient, \<^verbatim>\<open>ZeroDivisionError\<close> for \<^verbatim>\<open>y == 0\<close>.\<close>

definition py_floordiv :: "real \<Rightarrow> real \<Rightarrow> error + real" where
  "py_floordiv x y = (if y = 0 then Inl ZeroDivisionError else Inr (of_int \<lfloor>x / y\<rfloor>))"

text \<open>\<^verbatim>\<open>x / y\<close> (true division, \<^verbatim>\<open>from __future__ import division\<close>).\<close>

definition py_truediv :: "real \<Rightarrow> real \<Rightarrow> error + real" where
  "py_truediv x y = (if y = 0 then Inl ZeroDivisionError else Inr (x / y))"

text \<open>\<^verbatim>\<open>int(x)\<close>: truncation toward zero.\<close>

definition py_int :: "real \<Rightarrow> int" where
  "py_int x = (if 0 \<le> x then \<lfloor>x\<rfloor> else \<lceil>x\<rceil>)"

text \<open>\<^verbatim>\<open>np.sqrt(x)\<close>: \<^verbatim>\<open>nan\<close> for a negative argument. \<^verbatim>\<open>x / y\<close> on numpy floats:
  \<^verbatim>\<open>inf\<close> or \<^verbatim>\<open>nan\<close> for \<^verbatim>\<open>y == 0\<close>, no exception.\<close>

definition np_sqrt :: "real \<Rightarrow> real option" where
  "np_sqrt x = (if x < 0 then None else Some (sqrt x))"

definition np_div :: "real \<Rightarrow> real \<Rightarrow> real option" where
  "np_div x y = (if y = 0 then None else Some (x / y))"

section \<open>The collaborators: waveguide template and geometry kernel\<close>

text \<open>
  \<^verbatim>\<open>WaveguideTemplate\<close>: the attributes the class reads (\<^verbatim>\<open>wgt.datatype\<close> is the field
  \<open>datatype_id\<close>).
\<close>

record WaveguideTemplate =
  wg_width :: real
  clad_width :: real
  resist :: string
  layer :: int
  datatype_id :: int

text \<open>
  The geometry kernel (gdspy) is not part of the component. An object of the kernel is
  modelled by what the component does to it: the constructor call that made it and, in
  order, the method calls and attribute assignments that followed. Arguments appear as
  the source passes them; an optional argument the source leaves out is \<open>None\<close>, and the
  keyword arguments \<^verbatim>\<open>**self.spec\<close> are the pair (layer, datatype).

  \<^item> \<open>Path width initial_point number_of_paths distance\<close> is \<^verbatim>\<open>gdspy.Path(...)\<close>;
  \<^item> \<open>L1Path initial_point direction width length turn number_of_paths distance spec\<close>
    is \<^verbatim>\<open>gdspy.L1Path(...)\<close>;
  \<^item> \<open>Segment length direction final_width final_distance spec\<close> is \<^verbatim>\<open>.segment(...)\<close>;
  \<^item> \<open>Parametric curve number_of_evaluations max_points spec\<close> is \<^verbatim>\<open>.parametric(...)\<close>;
  \<^item> \<open>SetX v\<close>, \<open>SetY v\<close> are the assignments \<^verbatim>\<open>teeth.x = v\<close>, \<^verbatim>\<open>teeth.y = v\<close>;
  \<^item> \<open>ClosePolygon0 n pts\<close> is the assignment
    \<^verbatim>\<open>polygons[0] = np.vstack((polygons[0][:n, :], pts))\<close>;
  \<^item> \<open>Fracture\<close> is \<^verbatim>\<open>.fracture()\<close>, \<open>Rotate angle center\<close> is \<^verbatim>\<open>.rotate(angle, center)\<close>.
\<close>

datatype gcall =
    Segment real string "real option" "real option" "int \<times> int"
  | Parametric "real \<Rightarrow> real \<times> real option" int int "int \<times> int"
  | SetX real
  | SetY real
  | ClosePolygon0 int "point list"
  | Fracture
  | Rotate real point

datatype gctor =
    Path real point "int option" "real option"
  | L1Path point string real "real list" "int list" int real "int \<times> int"

record gobject =
  ctor :: gctor
  calls :: "gcall list"

definition new :: "gctor \<Rightarrow> gobject" where
  "new c = \<lparr>ctor = c, calls = []\<rparr>"

definition call :: "gobject \<Rightarrow> gcall \<Rightarrow> gobject" where
  "call ob c = ob\<lparr>calls := calls ob @ [c]\<rparr>"

text \<open>
  A new path holds no polygon; \<^verbatim>\<open>segment\<close> and \<^verbatim>\<open>parametric\<close> are the calls that append
  polygons. \<^verbatim>\<open>polygons[0]\<close> raises \<^verbatim>\<open>IndexError\<close> on a path without polygons.
\<close>

fun draws :: "gcall \<Rightarrow> bool" where
  "draws (Segment l d fw fd s) = True"
| "draws (Parametric f n m s) = True"
| "draws c = False"

definition has_polygon :: "gobject \<Rightarrow> bool" where
  "has_polygon ob = list_ex draws (calls ob)"

section \<open>The class GratingCoupler\<close>

text \<open>
  The object under construction: the contents of the cell (\<open>elements\<close>, what \<^verbatim>\<open>self.add\<close>
  has received), \<^verbatim>\<open>self.portlist\<close> and the attributes \<^verbatim>\<open>__init__\<close> sets (\<^verbatim>\<open>self.length\<close> is
  \<open>length_gc\<close>). A port entry \<^verbatim>\<open>{'port': p, 'direction': d}\<close> is the pair \<open>(p, d)\<close>. The name
  of the cell, a fresh uuid, is left out.
\<close>

type_synonym 'd portlist = "string \<rightharpoonup> point \<times> 'd"

record 'd GratingCoupler =
  elements :: "gobject list"
  portlist :: "'d portlist"
  port :: point
  direction :: string
  wgt :: WaveguideTemplate
  resist_gc :: string
  focus_distance :: "real option"
  width :: real
  length_gc :: real
  taper_length :: real
  period :: real
  dc :: real
  wavelength :: real
  sin_theta :: real
  evaluations :: int
  spec :: "int \<times> int"

text \<open>
  A raised exception is paired with the contents of the cell and the port list at the
  moment it is raised.
\<close>

type_synonym 'd raised = "error \<times> gobject list \<times> 'd portlist"

definition raise :: "error \<Rightarrow> 'd GratingCoupler \<Rightarrow> 'd raised + 'a" where
  "raise e self = Inl (e, elements self, portlist self)"

text \<open>Line 67: \<^verbatim>\<open>num_teeth = int(self.length//self.period)\<close>.\<close>

definition num_teeth :: "'d GratingCoupler \<Rightarrow> error + int" where
  "num_teeth self =
     (case py_floordiv (length_gc self) (period self) of
        Inl e \<Rightarrow> Inl e
      | Inr v \<Rightarrow> Inr (py_int v))"

text \<open>
  Lines 71 to 84, the straight grating. The result is the pair of the local variables
  (\<^verbatim>\<open>teeth\<close>, \<^verbatim>\<open>path\<close>); \<open>None\<close> is a variable that was never assigned.
\<close>

definition straight_grating ::
  "'d GratingCoupler \<Rightarrow> int \<Rightarrow> gobject option \<times> gobject option" where
  "straight_grating self n =
     (if resist_gc self = ''-'' then
        let path = new (Path (wg_width (wgt self)) (port self) None None);
            path = call path (Segment (taper_length self) ''+y'' (Some (width self)) None
                     (spec self));
            teeth = new (L1Path
                     (fst (port self) - 0.5 * width self,
                      taper_length self + snd (port self)
                        + 0.5 * (of_int n - 1 + dc self) * period self)
                     ''+x'' (period self * dc self) [width self] [] n (period self)
                     (spec self))
        in (Some teeth, Some path)
      else if resist_gc self = ''+'' then
        let path = new (Path (clad_width (wgt self)) (port self) (Some 2)
                     (Some (wg_width (wgt self) + clad_width (wgt self))));
            path = call path (Segment (taper_length self) ''+y'' None
                     (Some (width self + clad_width (wgt self))) (spec self));
            path = call path (Segment (length_gc self) ''+y'' None None (spec self));
            teeth = new (L1Path
                     (fst (port self) - 0.5 * width self,
                      taper_length self + snd (port self)
                        + 0.5 * (of_int n - 1 + (1.0 - dc self)) * period self)
                     ''+x'' (period self * (1.0 - dc self)) [width self] [] n (period self)
                     (spec self))
        in (Some teeth, Some path)
      else (None, None))"

text \<open>
  Lines 99 and 100, the curve handed to \<^verbatim>\<open>parametric\<close>:
  \<^verbatim>\<open>lambda t: (self.width*t - w, (c1 + neff*np.sqrt(c2 - c3*(self.width*t - w)**2)) / c3)\<close>.
\<close>

definition tooth_curve ::
  "real \<Rightarrow> real \<Rightarrow> real \<Rightarrow> real \<Rightarrow> real \<Rightarrow> real \<Rightarrow> real \<Rightarrow> real \<times> real option" where
  "tooth_curve wd w neff c1 c2 c3 t =
     (wd * t - w,
      case np_sqrt (c2 - c3 * (wd * t - w)\<^sup>2) of
        None \<Rightarrow> None
      | Some r \<Rightarrow> np_div (c1 + neff * r) c3)"

text \<open>Lines 97 to 105, the body of the loop over \<open>q\<close>.\<close>

definition max_points :: int where
  "max_points = 199"

definition lensed_tooth ::
  "'d GratingCoupler \<Rightarrow> real \<Rightarrow> real \<Rightarrow> real \<Rightarrow> gobject \<Rightarrow> int \<Rightarrow> gobject" where
  "lensed_tooth self neff c3 w teeth q =
     (let c1 = of_int q * wavelength self * sin_theta self;
          c2 = (of_int q * wavelength self)\<^sup>2;
          teeth = call teeth (Parametric (tooth_curve (width self) w neff c1 c2 c3)
                    (evaluations self) max_points (spec self));
          teeth = call teeth (SetX (fst (port self)));
          teeth = call teeth (SetY (snd (port self)))
      in teeth)"

text \<open>Line 91: \<^verbatim>\<open>qmin = int(self.focus_distance / float(self.period) + 0.5)\<close>.\<close>

definition lensed_qmin :: "real \<Rightarrow> real \<Rightarrow> error + int" where
  "lensed_qmin f p =
     (case py_truediv f p of
        Inl e \<Rightarrow> Inl e
      | Inr d \<Rightarrow> Inr (py_int (d + 0.5)))"

text \<open>
  Lines 88 to 110, the lensed grating, for \<^verbatim>\<open>self.focus_distance\<close> equal to \<open>f\<close>. The loop
  \<^verbatim>\<open>for q in range(qmin, qmin + num_teeth)\<close> is the fold over \<open>[qmin..qmin + n - 1]\<close>.
\<close>

definition lensed_grating ::
  "'d GratingCoupler \<Rightarrow> int \<Rightarrow> real \<Rightarrow> error + gobject option \<times> gobject option" where
  "lensed_grating self n f =
     (let path = new (Path (wg_width (wgt self)) (port self) None None) in
      if \<not> (f > 0) then Inl AssertionError
      else
        case py_truediv (wavelength self) (period self) of
          Inl e \<Rightarrow> Inl e
        | Inr d \<Rightarrow>
            (let neff = d + sin_theta self in
             (case lensed_qmin f (period self) of
                Inl e \<Rightarrow> Inl e
              | Inr qmin \<Rightarrow>
                  (let teeth = new (Path (period self * dc self) (port self) None None);
                       c3 = neff\<^sup>2 - (sin_theta self)\<^sup>2;
                       w = 0.5 * width self;
                       teeth = foldl (lensed_tooth self neff c3 w) teeth [qmin..qmin + n - 1]
                   in
                   if \<not> has_polygon teeth then Inl IndexError
                   else
                     (let teeth = call teeth (ClosePolygon0 (evaluations self)
                                   [(fst (port self) + 0.5 * wg_width (wgt self), snd (port self)),
                                    (fst (port self) - 0.5 * wg_width (wgt self), snd (port self))]);
                          teeth = call teeth Fracture
                      in Inr (Some teeth, Some path))))))"

text \<open>
  Lines 112 to 120: \<^verbatim>\<open>teeth.rotate(angle, self.port)\<close> followed by
  \<^verbatim>\<open>path.rotate(angle, self.port)\<close>. Reading a local variable that was never assigned
  raises \<^verbatim>\<open>UnboundLocalError\<close>.
\<close>

definition rotate_both ::
  "real \<Rightarrow> point \<Rightarrow> gobject option \<times> gobject option
     \<Rightarrow> error + gobject option \<times> gobject option" where
  "rotate_both angle c tp =
     (case fst tp of
        None \<Rightarrow> Inl UnboundLocalError
      | Some teeth \<Rightarrow>
          (case snd tp of
             None \<Rightarrow> Inl UnboundLocalError
           | Some path \<Rightarrow> Inr (Some (call teeth (Rotate angle c)), Some (call path (Rotate angle c)))))"

definition orient ::
  "'d GratingCoupler \<Rightarrow> gobject option \<times> gobject option
     \<Rightarrow> error + gobject option \<times> gobject option" where
  "orient self tp =
     (case (if direction self = ''WEST'' then rotate_both (pi / 2.0) (port self) tp else Inr tp) of
        Inl e \<Rightarrow> Inl e
      | Inr tp \<Rightarrow>
          (case (if direction self = ''SOUTH'' then rotate_both pi (port self) tp else Inr tp) of
             Inl e \<Rightarrow> Inl e
           | Inr tp \<Rightarrow>
               (if direction self = ''EAST'' then rotate_both (- pi / 2.0) (port self) tp
                else Inr tp)))"

text \<open>Lines 121 and 122: \<^verbatim>\<open>self.add(teeth)\<close>, then \<^verbatim>\<open>self.add(path)\<close>.\<close>

definition add_both ::
  "'d GratingCoupler \<Rightarrow> gobject option \<times> gobject option
     \<Rightarrow> 'd raised + 'd GratingCoupler" where
  "add_both self tp =
     (case fst tp of
        None \<Rightarrow> raise UnboundLocalError self
      | Some teeth \<Rightarrow>
          let self = self\<lparr>elements := elements self @ [teeth]\<rparr> in
          (case snd tp of
             None \<Rightarrow> raise UnboundLocalError self
           | Some path \<Rightarrow> Inr (self\<lparr>elements := elements self @ [path]\<rparr>)))"

text \<open>\<^verbatim>\<open>build_cell\<close>, lines 62 to 122.\<close>

definition build_cell :: "'d GratingCoupler \<Rightarrow> 'd raised + 'd GratingCoupler" where
  "build_cell self =
     (case num_teeth self of
        Inl e \<Rightarrow> raise e self
      | Inr n \<Rightarrow>
          (case (case focus_distance self of
                   None \<Rightarrow> Inr (straight_grating self n)
                 | Some f \<Rightarrow> lensed_grating self n f) of
             Inl e \<Rightarrow> raise e self
           | Inr tp \<Rightarrow>
               (case orient self tp of
                  Inl e \<Rightarrow> raise e self
                | Inr tp \<Rightarrow> add_both self tp)))"

text \<open>
  \<^verbatim>\<open>build_ports\<close>, line 128. \<^verbatim>\<open>tk.flip_direction\<close> belongs to \<^verbatim>\<open>picwriter/toolkit.py\<close>,
  which is not among the sources: it is the parameter \<open>flip\<close>.
\<close>

definition build_ports :: "(string \<Rightarrow> 'd) \<Rightarrow> 'd GratingCoupler \<Rightarrow> 'd GratingCoupler" where
  "build_ports flip self =
     self\<lparr>portlist := (portlist self)(''output'' \<mapsto> (port self, flip (direction self)))\<rparr>"

text \<open>
  \<^verbatim>\<open>__init__\<close>, lines 14 to 60. The parameters carry a prime where the attribute of the
  same name is a field of the record. \<open>init_attributes\<close> is the object after the
  assignments of lines 36 to 57: an empty cell, an empty port list and the attributes.
\<close>

definition init_attributes ::
  "WaveguideTemplate \<Rightarrow> point \<Rightarrow> string \<Rightarrow> real option \<Rightarrow> real \<Rightarrow> real
     \<Rightarrow> real \<Rightarrow> real \<Rightarrow> real \<Rightarrow> real \<Rightarrow> real \<Rightarrow> int \<Rightarrow> 'd GratingCoupler" where
  "init_attributes wgt' port' direction' focus_distance' width' length' taper_length'
       period' dutycycle wavelength' sin_theta' evaluations' =
     \<lparr>elements = [], portlist = Map.empty, port = port', direction = direction',
      wgt = wgt', resist_gc = resist wgt', focus_distance = focus_distance',
      width = width', length_gc = length', taper_length = taper_length',
      period = period', dc = dutycycle, wavelength = wavelength',
      sin_theta = sin_theta', evaluations = evaluations',
      spec = (layer wgt', datatype_id wgt')\<rparr>"

definition GratingCoupler_init ::
  "(string \<Rightarrow> 'd) \<Rightarrow> WaveguideTemplate \<Rightarrow> point \<Rightarrow> string \<Rightarrow> real option \<Rightarrow> real \<Rightarrow> real
     \<Rightarrow> real \<Rightarrow> real \<Rightarrow> real \<Rightarrow> real \<Rightarrow> real \<Rightarrow> int \<Rightarrow> 'd raised + 'd GratingCoupler" where
  "GratingCoupler_init flip wgt' port' direction' focus_distance' width' length' taper_length'
       period' dutycycle wavelength' sin_theta' evaluations' =
     (if dutycycle > 1.0 \<or> dutycycle < 0.0 then Inl (ValueError, [], Map.empty)
      else
        let self = init_attributes wgt' port' direction' focus_distance' width' length'
                     taper_length' period' dutycycle wavelength' sin_theta' evaluations'
        in case build_cell self of
             Inl r \<Rightarrow> Inl r
           | Inr self \<Rightarrow> Inr (build_ports flip self))"


section \<open>Descriptions of the built objects\<close>

text \<open>
  What follows names the objects the theorems speak about. The calls one pass of the loop
  makes on \<^verbatim>\<open>teeth\<close>, for the tooth index \<open>q\<close>:
\<close>

definition tooth_calls :: "'d GratingCoupler \<Rightarrow> real \<Rightarrow> real \<Rightarrow> real \<Rightarrow> int \<Rightarrow> gcall list" where
  "tooth_calls self neff c3 w q =
     [Parametric (tooth_curve (width self) w neff (of_int q * wavelength self * sin_theta self)
         ((of_int q * wavelength self)\<^sup>2) c3) (evaluations self) 199 (spec self),
      SetX (fst (port self)), SetY (snd (port self))]"

text \<open>The \<^verbatim>\<open>rotate\<close> calls of lines 112 to 120 for a direction \<open>d\<close> and a centre \<open>c\<close>.\<close>

definition rotation_calls :: "string \<Rightarrow> point \<Rightarrow> gcall list" where
  "rotation_calls d c =
     (if d = ''WEST'' then [Rotate (pi / 2) c] else [])
     @ (if d = ''SOUTH'' then [Rotate pi c] else [])
     @ (if d = ''EAST'' then [Rotate (- pi / 2) c] else [])"

definition rotated :: "string \<Rightarrow> point \<Rightarrow> gobject \<Rightarrow> gobject" where
  "rotated d c ob = ob\<lparr>calls := calls ob @ rotation_calls d c\<rparr>"

text \<open>The two objects of the lensed grating before the rotation, for \<open>n\<close> teeth.\<close>

definition lensed_teeth :: "'d GratingCoupler \<Rightarrow> int \<Rightarrow> real \<Rightarrow> gobject" where
  "lensed_teeth self n f =
     (let neff = wavelength self / period self + sin_theta self;
          qmin = py_int (f / period self + 0.5);
          c3 = neff\<^sup>2 - (sin_theta self)\<^sup>2;
          w = 0.5 * width self
      in \<lparr>ctor = Path (period self * dc self) (port self) None None,
          calls = concat (map (tooth_calls self neff c3 w) [qmin..qmin + n - 1])
                  @ [ClosePolygon0 (evaluations self)
                       [(fst (port self) + 0.5 * wg_width (wgt self), snd (port self)),
                        (fst (port self) - 0.5 * wg_width (wgt self), snd (port self))],
                     Fracture]\<rparr>)"

definition lensed_path :: "'d GratingCoupler \<Rightarrow> gobject" where
  "lensed_path self = \<lparr>ctor = Path (wg_width (wgt self)) (port self) None None, calls = []\<rparr>"

text \<open>The two objects of the straight grating before the rotation.\<close>

definition straight_teeth :: "'d GratingCoupler \<Rightarrow> int \<Rightarrow> real \<Rightarrow> gobject" where
  "straight_teeth self n duty =
     \<lparr>ctor = L1Path (fst (port self) - 0.5 * width self,
                     taper_length self + snd (port self)
                       + 0.5 * (of_int n - 1 + duty) * period self)
                    ''+x'' (period self * duty) [width self] [] n (period self) (spec self),
      calls = []\<rparr>"

definition straight_path :: "'d GratingCoupler \<Rightarrow> gobject" where
  "straight_path self =
     (if resist_gc self = ''-'' then
        \<lparr>ctor = Path (wg_width (wgt self)) (port self) None None,
         calls = [Segment (taper_length self) ''+y'' (Some (width self)) None (spec self)]\<rparr>
      else
        \<lparr>ctor = Path (clad_width (wgt self)) (port self) (Some 2)
                  (Some (wg_width (wgt self) + clad_width (wgt self))),
         calls = [Segment (taper_length self) ''+y'' None
                    (Some (width self + clad_width (wgt self))) (spec self),
                  Segment (length_gc self) ''+y'' None None (spec self)]\<rparr>)"

text \<open>
  The effective duty of the straight grating in the words of the specification: the
  dutycycle for the etch-negative resist \<^verbatim>\<open>'-'\<close>, one minus the dutycycle for the
  etch-positive one.
\<close>

definition effective_duty :: "'d GratingCoupler \<Rightarrow> real" where
  "effective_duty self = (if resist_gc self = ''-'' then dc self else 1 - dc self)"

text \<open>
  The pair (\<^verbatim>\<open>teeth\<close>, \<^verbatim>\<open>path\<close>) as it stands before line 112, or the exception raised
  before that line, in closed form.
\<close>

definition drawn :: "'d GratingCoupler \<Rightarrow> error + gobject \<times> gobject" where
  "drawn self =
     (if period self = 0 then Inl ZeroDivisionError
      else
        case focus_distance self of
          None \<Rightarrow>
            if resist_gc self = ''-'' \<or> resist_gc self = ''+''
            then Inr (straight_teeth self \<lfloor>length_gc self / period self\<rfloor> (effective_duty self),
                      straight_path self)
            else Inl UnboundLocalError
        | Some f \<Rightarrow>
            if f \<le> 0 then Inl AssertionError
            else if \<lfloor>length_gc self / period self\<rfloor> < 1 then Inl IndexError
            else Inr (lensed_teeth self \<lfloor>length_gc self / period self\<rfloor> f, lensed_path self))"

text \<open>
  Observations on a result: the exception it raised, if any, and the geometry (the
  elements of the cell and the port list) it carries.
\<close>

definition outcome :: "'d raised + 'd GratingCoupler \<Rightarrow> error option" where
  "outcome r = (case r of Inl x \<Rightarrow> Some (fst x) | Inr gc \<Rightarrow> None)"

definition geometry :: "'d raised + 'd GratingCoupler \<Rightarrow> 'd raised + gobject list \<times> 'd portlist" where
  "geometry r = (case r of Inl x \<Rightarrow> Inl x | Inr gc \<Rightarrow> Inr (elements gc, portlist gc))"

text \<open>Observations on an object: the lengths of its segments, its rotations, the curves
  it was asked to draw, and the number of teeth it holds (the \<^verbatim>\<open>number_of_paths\<close> of an
  \<^verbatim>\<open>L1Path\<close>, the number of \<^verbatim>\<open>parametric\<close> calls on a \<^verbatim>\<open>Path\<close>).\<close>

fun segment_length :: "gcall \<Rightarrow> real list" where
  "segment_length (Segment l d fw fd s) = [l]"
| "segment_length c = []"

definition segment_lengths :: "gobject \<Rightarrow> real list" where
  "segment_lengths ob = concat (map segment_length (calls ob))"

fun rotation :: "gcall \<Rightarrow> (real \<times> point) list" where
  "rotation (Rotate a c) = [(a, c)]"
| "rotation c = []"

definition rotations :: "gobject \<Rightarrow> (real \<times> point) list" where
  "rotations ob = concat (map rotation (calls ob))"

fun curve :: "gcall \<Rightarrow> (real \<Rightarrow> real \<times> real option) list" where
  "curve (Parametric f n m s) = [f]"
| "curve c = []"

definition curves :: "gobject \<Rightarrow> (real \<Rightarrow> real \<times> real option) list" where
  "curves ob = concat (map curve (calls ob))"


text \<open>
  Modelled from the spec: \<^verbatim>\<open>tk.flip_direction\<close> of \<^verbatim>\<open>picwriter/toolkit.py\<close>, which is not
  among the sources. The specification calls it the opposite of the facing direction, a
  fixed relabelling by 180 degrees of the four cardinal tags; it gives no value for
  another tag, which is \<open>None\<close> here.
\<close>

definition flip_direction :: "string \<Rightarrow> string option" where
  "flip_direction d =
     (if d = ''NORTH'' then Some ''SOUTH''
      else if d = ''SOUTH'' then Some ''NORTH''
      else if d = ''EAST'' then Some ''WEST''
      else if d = ''WEST'' then Some ''EAST''
      else None)"

text \<open>
  The orientation in the words of the specification: the angle in degrees for each
  direction, \<open>None\<close> where no rotation is applied; and the rotations about a centre \<open>c\<close>
  that follow from it, in radians.
\<close>

definition spec_rotation :: "string \<Rightarrow> real option" where
  "spec_rotation d =
     (if d = ''WEST'' then Some 90
      else if d = ''SOUTH'' then Some 180
      else if d = ''EAST'' then Some (- 90)
      else None)"

definition spec_rotations :: "string \<Rightarrow> point \<Rightarrow> (real \<times> point) list" where
  "spec_rotations d c =
     (case spec_rotation d of None \<Rightarrow> [] | Some a \<Rightarrow> [(a * pi / 180, c)])"





text \<open>More observations: the objects a construction added to the cell, and the
  evaluation count and the cap on the points of each \<^verbatim>\<open>parametric\<close> call of an object.\<close>

definition built :: "'d raised + 'd GratingCoupler \<Rightarrow> gobject list" where
  "built r = (case r of Inl x \<Rightarrow> [] | Inr gc \<Rightarrow> elements gc)"



text \<open>
  Two objects for the examples, as \<open>init_attributes\<close> leaves them: the straight grating
  with the defaults of the signature, and the lensed grating of the module's own
  example (\<^verbatim>\<open>focus_distance=20.0\<close>), both on a template with resist \<^verbatim>\<open>'-'\<close>.
\<close>

definition wgt_example :: WaveguideTemplate where
  "wgt_example = \<lparr>wg_width = 2, clad_width = 10, resist = ''-'', layer = 1, datatype_id = 0\<rparr>"

definition straight_example :: "string option GratingCoupler" where
  "straight_example =
     init_attributes wgt_example (0, 0) ''EAST'' None 20 50 20 1.0 0.5 1.55
       (sin (pi * 8 / 180)) 99"

definition lensed_example :: "string option GratingCoupler" where
  "lensed_example =
     init_attributes wgt_example (0, 0) ''EAST'' (Some 20.0) 20 50 20 1.0 0.5 1.55
       (sin (pi * 8 / 180)) 99"

section \<open>Closed forms of the builder\<close>

lemma py_int_of_int: "py_int (of_int k) = k"
  by (simp add: py_int_def)

lemma num_teeth_eq:
  "num_teeth self =
     (if period self = 0 then Inl ZeroDivisionError
      else Inr \<lfloor>length_gc self / period self\<rfloor>)"
  by (simp add: num_teeth_def py_floordiv_def py_int_of_int)

lemma lensed_tooth_eq:
  "lensed_tooth self neff c3 w teeth q = teeth\<lparr>calls := calls teeth @ tooth_calls self neff c3 w q\<rparr>"
  by (simp add: lensed_tooth_def tooth_calls_def call_def max_points_def Let_def)

lemma foldl_lensed_tooth:
  "foldl (lensed_tooth self neff c3 w) teeth qs
     = teeth\<lparr>calls := calls teeth @ concat (map (tooth_calls self neff c3 w) qs)\<rparr>"
  by (induction qs arbitrary: teeth) (simp_all add: lensed_tooth_eq)

lemma draws_tooth_calls:
  "list_ex draws (concat (map (tooth_calls self neff c3 w) qs)) = (qs \<noteq> [])"
  by (induction qs) (simp_all add: tooth_calls_def)

lemma upto_nonempty: "([q..q + n - 1] \<noteq> []) = (1 \<le> (n::int))"
  by auto

lemma lensed_grating_eq:
  "lensed_grating self n f =
     (if f \<le> 0 then Inl AssertionError
      else if period self = 0 then Inl ZeroDivisionError
      else if n < 1 then Inl IndexError
      else Inr (Some (lensed_teeth self n f), Some (lensed_path self)))"
  by (simp add: lensed_grating_def lensed_qmin_def py_truediv_def Let_def foldl_lensed_tooth
        has_polygon_def new_def call_def draws_tooth_calls upto_nonempty lensed_teeth_def
        lensed_path_def not_le)

lemma rotate_both_bound:
  "rotate_both a c (Some t, Some p) = Inr (Some (call t (Rotate a c)), Some (call p (Rotate a c)))"
  by (simp add: rotate_both_def)

lemma orient_bound:
  "orient self (Some t, Some p)
     = Inr (Some (rotated (direction self) (port self) t),
            Some (rotated (direction self) (port self) p))"
  by (simp add: orient_def rotate_both_bound rotated_def rotation_calls_def call_def)

lemma orient_unbound:
  "orient self (None, None)
     = (if direction self = ''WEST'' \<or> direction self = ''SOUTH'' \<or> direction self = ''EAST''
        then Inl UnboundLocalError else Inr (None, None))"
  by (simp add: orient_def rotate_both_def)

lemma straight_grating_eq:
  "straight_grating self n =
     (if resist_gc self = ''-'' \<or> resist_gc self = ''+''
      then (Some (straight_teeth self n (effective_duty self)), Some (straight_path self))
      else (None, None))"
  by (simp add: straight_grating_def straight_teeth_def straight_path_def effective_duty_def
        new_def call_def Let_def)

lemma build_cell_lensed:
  "focus_distance self = Some f \<Longrightarrow>
   build_cell self =
     (if period self = 0 then raise ZeroDivisionError self
      else if f \<le> 0 then raise AssertionError self
      else if \<lfloor>length_gc self / period self\<rfloor> < 1 then raise IndexError self
      else Inr (self\<lparr>elements := elements self
                 @ [rotated (direction self) (port self)
                      (lensed_teeth self \<lfloor>length_gc self / period self\<rfloor> f),
                    rotated (direction self) (port self) (lensed_path self)]\<rparr>))"
  by (simp add: build_cell_def num_teeth_eq lensed_grating_eq orient_bound add_both_def)

lemma build_cell_straight:
  "focus_distance self = None \<Longrightarrow>
   build_cell self =
     (if period self = 0 then raise ZeroDivisionError self
      else if resist_gc self = ''-'' \<or> resist_gc self = ''+''
      then Inr (self\<lparr>elements := elements self
                 @ [rotated (direction self) (port self)
                      (straight_teeth self \<lfloor>length_gc self / period self\<rfloor>
                         (effective_duty self)),
                    rotated (direction self) (port self) (straight_path self)]\<rparr>)
      else raise UnboundLocalError self)"
  by (simp add: build_cell_def num_teeth_eq straight_grating_eq orient_bound orient_unbound
        add_both_def)

lemma curve_tooth_calls:
  "concat (map curve (concat (map (tooth_calls self neff c3 w) qs)))
     = map (\<lambda>q. tooth_curve (width self) w neff (of_int q * wavelength self * sin_theta self)
              ((of_int q * wavelength self)\<^sup>2) c3) qs"
  by (induction qs) (simp_all add: tooth_calls_def)

lemma curve_rotation_calls: "concat (map curve (rotation_calls d c)) = []"
  by (simp add: rotation_calls_def)

lemma curves_lensed_teeth:
  "curves (rotated d c (lensed_teeth self n f))
     = map (\<lambda>q. tooth_curve (width self) (0.5 * width self)
                (wavelength self / period self + sin_theta self)
                (of_int q * wavelength self * sin_theta self)
                ((of_int q * wavelength self)\<^sup>2)
                ((wavelength self / period self + sin_theta self)\<^sup>2 - (sin_theta self)\<^sup>2))
         [py_int (f / period self + 0.5)..py_int (f / period self + 0.5) + n - 1]"
  by (simp add: curves_def rotated_def lensed_teeth_def Let_def curve_tooth_calls
        curve_rotation_calls)



lemma rotation_rotation_calls:
  "concat (map rotation (rotation_calls d c)) = spec_rotations d c"
  by (simp add: rotation_calls_def spec_rotations_def spec_rotation_def)

lemma rotation_tooth_calls:
  "concat (map rotation (concat (map (tooth_calls self neff c3 w) qs))) = []"
  by (induction qs) (simp_all add: tooth_calls_def)

lemma rotations_rotated:
  "rotations (rotated d c ob) = rotations ob @ spec_rotations d c"
  by (simp add: rotations_def rotated_def rotation_rotation_calls)

lemma rotations_unrotated:
  "rotations (lensed_teeth self n f) = []" "rotations (lensed_path self) = []"
  "rotations (straight_teeth self n duty) = []" "rotations (straight_path self) = []"
  by (simp_all add: rotations_def lensed_teeth_def lensed_path_def straight_teeth_def
        straight_path_def Let_def rotation_tooth_calls)

lemma tooth_curve_symmetric:
  "fst (tooth_curve wd (0.5 * wd) neff c1 c2 c3 (1 - t))
     = - fst (tooth_curve wd (0.5 * wd) neff c1 c2 c3 t)
   \<and> snd (tooth_curve wd (0.5 * wd) neff c1 c2 c3 (1 - t))
     = snd (tooth_curve wd (0.5 * wd) neff c1 c2 c3 t)"
proof -
  have "(wd / 2 - wd * t)\<^sup>2 = (wd * t - wd / 2)\<^sup>2"
    by (rule power2_commute)
  then show ?thesis
    by (simp add: tooth_curve_def algebra_simps)
qed

lemma build_cell_eq:
  "build_cell self =
     (case drawn self of
        Inl e \<Rightarrow> raise e self
      | Inr tp \<Rightarrow>
          Inr (self\<lparr>elements := elements self
                 @ [rotated (direction self) (port self) (fst tp),
                    rotated (direction self) (port self) (snd tp)]\<rparr>))"
proof (cases "focus_distance self")
  case None
  from build_cell_straight [OF None] None show ?thesis
    by (simp add: drawn_def)
next
  case (Some f)
  from build_cell_lensed [OF Some] Some show ?thesis
    by (simp add: drawn_def)
qed

lemma init_eq:
  "GratingCoupler_init (flip :: string \<Rightarrow> 'd) wgt' port' direction' focus_distance' width' length' taper_length' period' dutycycle wavelength' sin_theta' evaluations' =
     (if dutycycle > 1 \<or> dutycycle < 0 then Inl (ValueError, [], Map.empty)
      else
        case drawn (init_attributes wgt' port' direction' focus_distance' width' length' taper_length' period' dutycycle wavelength' sin_theta' evaluations'
                      :: 'd GratingCoupler) of
          Inl e \<Rightarrow> Inl (e, [], Map.empty)
        | Inr tp \<Rightarrow>
            Inr ((init_attributes wgt' port' direction' focus_distance' width' length' taper_length' period' dutycycle wavelength' sin_theta' evaluations')
                   \<lparr>elements := [rotated direction' port' (fst tp),
                                 rotated direction' port' (snd tp)],
                    portlist := [''output'' \<mapsto> (port', flip direction')]\<rparr>))"
proof -
  let ?s = "init_attributes wgt' port' direction' focus_distance' width' length' taper_length'
              period' dutycycle wavelength' sin_theta' evaluations' :: 'd GratingCoupler"
  have a: "elements ?s = []" "portlist ?s = Map.empty" "port ?s = port'"
    "direction ?s = direction'"
    by (simp_all add: init_attributes_def)
  show ?thesis
    by (cases "drawn ?s")
       (simp_all add: GratingCoupler_init_def build_cell_eq Let_def raise_def build_ports_def a)
qed

lemma drawn_init:
  "drawn (init_attributes wgt' port' direction' focus_distance' width' length' taper_length' period' dutycycle wavelength' sin_theta' evaluations' :: 'd GratingCoupler) =
     (if period' = 0 then Inl ZeroDivisionError
      else
        case focus_distance' of
          None \<Rightarrow>
            if resist wgt' = ''-'' \<or> resist wgt' = ''+''
            then Inr (straight_teeth (init_attributes wgt' port' direction' focus_distance' width' length' taper_length' period' dutycycle wavelength' sin_theta' evaluations'
                                        :: 'd GratingCoupler)
                        \<lfloor>length' / period'\<rfloor> (if resist wgt' = ''-'' then dutycycle else 1 - dutycycle),
                      straight_path (init_attributes wgt' port' direction' focus_distance' width' length' taper_length' period' dutycycle wavelength' sin_theta' evaluations'
                                        :: 'd GratingCoupler))
            else Inl UnboundLocalError
        | Some f \<Rightarrow>
            if f \<le> 0 then Inl AssertionError
            else if \<lfloor>length' / period'\<rfloor> < 1 then Inl IndexError
            else Inr (lensed_teeth (init_attributes wgt' port' direction' focus_distance' width' length' taper_length' period' dutycycle wavelength' sin_theta' evaluations'
                                      :: 'd GratingCoupler) \<lfloor>length' / period'\<rfloor> f,
                      lensed_path (init_attributes wgt' port' direction' focus_distance' width' length' taper_length' period' dutycycle wavelength' sin_theta' evaluations'
                                      :: 'd GratingCoupler)))"
  by (simp add: drawn_def init_attributes_def effective_duty_def split: option.splits)

lemma tooth_calls_fun:
  "tooth_calls self neff c3 w =
     (\<lambda>q. [Parametric (tooth_curve (width self) w neff
                 (of_int q * wavelength self * sin_theta self)
                 ((of_int q * wavelength self)\<^sup>2) c3) (evaluations self) 199 (spec self),
           SetX (fst (port self)), SetY (snd (port self))])"
  by (simp add: fun_eq_iff tooth_calls_def)

lemma rotations_drawn:
  assumes "drawn self = Inr tp"
  shows "rotations (fst tp) = [] \<and> rotations (snd tp) = []"
  using assms
  by (auto simp: drawn_def rotations_unrotated split: if_splits option.splits)

lemma drawn_direction: "drawn (self\<lparr>direction := d\<rparr>) = drawn self"
  by (simp add: drawn_def lensed_teeth_def lensed_path_def straight_teeth_def straight_path_def
        effective_duty_def tooth_calls_fun Let_def split: option.splits)

lemma init_attributes_direction:
  "init_attributes wgt' port' d focus_distance' width' length' taper_length' period' dutycycle
       wavelength' sin_theta' evaluations'
     = (init_attributes wgt' port' direction' focus_distance' width' length' taper_length'
          period' dutycycle wavelength' sin_theta' evaluations')\<lparr>direction := d\<rparr>"
  by (simp add: init_attributes_def)






lemma segment_rotation_calls: "concat (map segment_length (rotation_calls d c)) = []"
  by (simp add: rotation_calls_def)

text \<open>The two examples build.\<close>

lemma build_lensed_example:
  "build_cell lensed_example =
     Inr (lensed_example\<lparr>elements :=
            [rotated ''EAST'' (0, 0) (lensed_teeth lensed_example 50 20),
             rotated ''EAST'' (0, 0) (lensed_path lensed_example)]\<rparr>)"
proof -
  have "focus_distance lensed_example = Some 20"
    by (simp add: lensed_example_def init_attributes_def)
  from build_cell_lensed [OF this] show ?thesis
    by (simp add: lensed_example_def init_attributes_def)
qed

lemma build_straight_example:
  "build_cell straight_example =
     Inr (straight_example\<lparr>elements :=
            [rotated ''EAST'' (0, 0) (straight_teeth straight_example 50 0.5),
             rotated ''EAST'' (0, 0) (straight_path straight_example)]\<rparr>)"
proof -
  have "focus_distance straight_example = None"
    by (simp add: straight_example_def init_attributes_def)
  from build_cell_straight [OF this] show ?thesis
    by (simp add: straight_example_def init_attributes_def effective_duty_def wgt_example_def)
qed

section \<open>The number of teeth\<close>



section \<open>The straight grating\<close>

text \<open>
  Claim C4. A straight grating (no focus distance, resist \<^verbatim>\<open>'-'\<close> or \<^verbatim>\<open>'+'\<close>, a period
  other than zero) builds, and its teeth are one \<^verbatim>\<open>L1Path\<close> in direction \<^verbatim>\<open>'+x'\<close>:
  \<^verbatim>\<open>num_teeth\<close> parallel paths of length \<^verbatim>\<open>width\<close>, each period * effective_duty wide, at
  the distance \<^verbatim>\<open>period\<close>, where the effective duty is the dutycycle for \<^verbatim>\<open>'-'\<close> and one
  minus the dutycycle for \<^verbatim>\<open>'+'\<close>. The centre line of the row lies
  taper_length + 0.5 * (num_teeth - 1 + effective_duty) * period above the port, and the
  row starts half a width left of the port, so that it reaches as far to the right of
  the port as to the left.
\<close>

theorem C4_straight_teeth:
  assumes "focus_distance self = None"
    and "resist_gc self = ''-'' \<or> resist_gc self = ''+''"
    and "period self \<noteq> 0"
  shows "build_cell self = Inr (self\<lparr>elements := elements self
           @ [rotated (direction self) (port self)
                \<lparr>ctor = L1Path
                          (fst (port self) - 0.5 * width self,
                           snd (port self) + (taper_length self
                             + 0.5 * (of_int \<lfloor>length_gc self / period self\<rfloor> - 1
                                      + effective_duty self) * period self))
                          ''+x'' (period self * effective_duty self) [width self] []
                          \<lfloor>length_gc self / period self\<rfloor> (period self) (spec self),
                 calls = []\<rparr>,
              rotated (direction self) (port self) (straight_path self)]\<rparr>)
         \<and> (fst (port self) - 0.5 * width self) + width self - fst (port self)
             = fst (port self) - (fst (port self) - 0.5 * width self)"
  using build_cell_straight [OF assms(1)] assms(2,3)
  by (simp add: straight_teeth_def algebra_simps)

theorem C4_straight_teeth_witness:
  "build_cell straight_example =
     Inr (straight_example\<lparr>elements :=
       [rotated ''EAST'' (0, 0)
          \<lparr>ctor = L1Path (- 10, 20 + 0.5 * (50 - 1 + 0.5) * 1) ''+x'' 0.5 [20] [] 50 1 (1, 0),
           calls = []\<rparr>,
        rotated ''EAST'' (0, 0) (straight_path straight_example)]\<rparr>)"
proof -
  have f: "focus_distance straight_example = None"
    and r: "resist_gc straight_example = ''-'' \<or> resist_gc straight_example = ''+''"
    and p: "period straight_example \<noteq> 0"
    by (simp_all add: straight_example_def init_attributes_def wgt_example_def)
  from C4_straight_teeth [OF f r p] show ?thesis
    by (simp add: straight_example_def init_attributes_def wgt_example_def effective_duty_def)
qed

section \<open>The focusing grating\<close>

text \<open>
  Claim C6. In the focusing mode, after every \<^verbatim>\<open>parametric\<close> call the builder replaces
  the first polygon of the teeth by its first \<^verbatim>\<open>evaluations\<close> points followed by exactly
  two points, (port_x + 0.5 * wg_width, port_y) and (port_x - 0.5 * wg_width, port_y),
  and then calls \<^verbatim>\<open>fracture()\<close>; only the rotation follows. The bound on the points of a
  fractured polygon is the kernel's contract for \<^verbatim>\<open>fracture\<close>.
\<close>

theorem C6_closing:
  assumes "focus_distance self = Some f" and "build_cell self = Inr gc"
  shows "\<exists>teeth path cs.
           elements gc = elements self @ [teeth, path]
           \<and> calls teeth = cs
               @ [ClosePolygon0 (evaluations self)
                    [(fst (port self) + 0.5 * wg_width (wgt self), snd (port self)),
                     (fst (port self) - 0.5 * wg_width (wgt self), snd (port self))],
                  Fracture]
               @ rotation_calls (direction self) (port self)
           \<and> concat (map curve cs) = curves teeth
           \<and> int (length (curves teeth)) = \<lfloor>length_gc self / period self\<rfloor>"
proof -
  let ?n = "\<lfloor>length_gc self / period self\<rfloor>"
  let ?t = "rotated (direction self) (port self) (lensed_teeth self ?n f)"
  from build_cell_lensed [OF assms(1)] assms(2)
  have n: "1 \<le> ?n"
    and e: "elements gc = elements self
          @ [?t, rotated (direction self) (port self) (lensed_path self)]"
    by (auto simp: raise_def split: if_splits)
  have "int (length (curves ?t)) = ?n"
    using n by (simp add: curves_lensed_teeth)
  moreover have "\<exists>cs. calls ?t = cs
               @ [ClosePolygon0 (evaluations self)
                    [(fst (port self) + 0.5 * wg_width (wgt self), snd (port self)),
                     (fst (port self) - 0.5 * wg_width (wgt self), snd (port self))],
                  Fracture]
               @ rotation_calls (direction self) (port self)
           \<and> concat (map curve cs) = curves ?t"
    by (simp add: rotated_def lensed_teeth_def Let_def curves_def curve_rotation_calls)
  ultimately show ?thesis using e by blast
qed

theorem C6_closing_witness:
  "\<exists>cs. calls (rotated ''EAST'' (0, 0) (lensed_teeth lensed_example 50 20))
          = cs @ [ClosePolygon0 99 [(1, 0), (- 1, 0)], Fracture] @ [Rotate (- pi / 2) (0, 0)]"
proof -
  have f: "focus_distance lensed_example = Some 20"
    by (simp add: lensed_example_def init_attributes_def)
  have a: "elements lensed_example = []" "evaluations lensed_example = 99"
    "port lensed_example = (0, 0)" "wg_width (wgt lensed_example) = 2"
    "direction lensed_example = ''EAST''"
    by (simp_all add: lensed_example_def init_attributes_def wgt_example_def)
  from C6_closing [OF f build_lensed_example] show ?thesis
    by (auto simp: a rotation_calls_def)
qed

text \<open>
  Claim C9. Every curve the focusing builder hands to \<^verbatim>\<open>parametric\<close>, one per tooth
  index, is symmetric about the line x = 0 relative to the port: x(1 - t) = - x(t) and
  y(1 - t) = y(t), for every t.
\<close>

theorem C9_symmetry:
  assumes "focus_distance self = Some f" and "build_cell self = Inr gc"
  shows "\<exists>teeth path.
           elements gc = elements self @ [teeth, path]
           \<and> int (length (curves teeth)) = \<lfloor>length_gc self / period self\<rfloor>
           \<and> (\<forall>c \<in> set (curves teeth). \<forall>t.
                 fst (c (1 - t)) = - fst (c t) \<and> snd (c (1 - t)) = snd (c t))"
proof -
  let ?n = "\<lfloor>length_gc self / period self\<rfloor>"
  let ?t = "rotated (direction self) (port self) (lensed_teeth self ?n f)"
  from build_cell_lensed [OF assms(1)] assms(2)
  have n: "1 \<le> ?n"
    and e: "elements gc = elements self
          @ [?t, rotated (direction self) (port self) (lensed_path self)]"
    by (auto simp: raise_def split: if_splits)
  have "int (length (curves ?t)) = ?n"
    using n by (simp add: curves_lensed_teeth)
  moreover have "\<forall>c \<in> set (curves ?t). \<forall>t.
                 fst (c (1 - t)) = - fst (c t) \<and> snd (c (1 - t)) = snd (c t)"
    unfolding curves_lensed_teeth using tooth_curve_symmetric by auto
  ultimately show ?thesis using e by blast
qed

theorem C9_symmetry_witness:
  "fst (hd (curves (rotated ''EAST'' (0, 0) (lensed_teeth lensed_example 50 20))) (1 - 1 / 4))
     = - fst (hd (curves (rotated ''EAST'' (0, 0) (lensed_teeth lensed_example 50 20))) (1 / 4))
   \<and> snd (hd (curves (rotated ''EAST'' (0, 0) (lensed_teeth lensed_example 50 20))) (1 - 1 / 4))
     = snd (hd (curves (rotated ''EAST'' (0, 0) (lensed_teeth lensed_example 50 20))) (1 / 4))"
proof -
  let ?T = "rotated ''EAST'' (0, 0) (lensed_teeth lensed_example 50 20)"
  have f: "focus_distance lensed_example = Some 20"
    and e: "elements lensed_example = []"
    and q: "\<lfloor>length_gc lensed_example / period lensed_example\<rfloor> = 50"
    by (simp_all add: lensed_example_def init_attributes_def)
  from C9_symmetry [OF f build_lensed_example]
  have n: "int (length (curves ?T)) = 50"
    and s: "\<forall>c \<in> set (curves ?T). \<forall>t.
              fst (c (1 - t)) = - fst (c t) \<and> snd (c (1 - t)) = snd (c t)"
    by (auto simp: e q)
  from n have "curves ?T \<noteq> []" by auto
  then have "hd (curves ?T) \<in> set (curves ?T)" by (rule hd_in_set)
  with s show ?thesis by blast
qed

section \<open>The orientation\<close>

text \<open>
  Claim C7. Whenever \<^verbatim>\<open>build_cell\<close> returns, the teeth and the path it added are two
  objects without a rotation, each followed by the same \<^verbatim>\<open>rotate\<close> calls about the port,
  and these depend on the direction alone: 90 degrees for WEST, 180 degrees for SOUTH,
  - 90 degrees for EAST, and no rotation for NORTH and for every other value.
\<close>

theorem C7_orientation:
  assumes "build_cell self = Inr gc"
  shows "\<exists>teeth path.
           elements gc = elements self
             @ [rotated (direction self) (port self) teeth,
                rotated (direction self) (port self) path]
           \<and> rotations teeth = [] \<and> rotations path = []
           \<and> rotations (rotated (direction self) (port self) teeth)
               = spec_rotations (direction self) (port self)
           \<and> rotations (rotated (direction self) (port self) path)
               = spec_rotations (direction self) (port self)"
proof (cases "focus_distance self")
  case None
  from build_cell_straight [OF None] assms
  have "elements gc = elements self
          @ [rotated (direction self) (port self)
               (straight_teeth self \<lfloor>length_gc self / period self\<rfloor> (effective_duty self)),
             rotated (direction self) (port self) (straight_path self)]"
    by (auto simp: raise_def split: if_splits)
  then show ?thesis
    by (intro exI conjI) (assumption, simp_all add: rotations_rotated rotations_unrotated)
next
  case (Some f)
  from build_cell_lensed [OF Some] assms
  have "elements gc = elements self
          @ [rotated (direction self) (port self)
               (lensed_teeth self \<lfloor>length_gc self / period self\<rfloor> f),
             rotated (direction self) (port self) (lensed_path self)]"
    by (auto simp: raise_def split: if_splits)
  then show ?thesis
    by (intro exI conjI) (assumption, simp_all add: rotations_rotated rotations_unrotated)
qed

theorem C7_orientation_witness:
  "rotations (rotated ''EAST'' (0, 0) (lensed_teeth lensed_example 50 20))
     = [(- 90 * pi / 180, (0, 0))]
   \<and> rotations (rotated ''EAST'' (0, 0) (lensed_path lensed_example))
     = [(- 90 * pi / 180, (0, 0))]"
proof -
  have d: "direction lensed_example = ''EAST''" and p: "port lensed_example = (0, 0)"
    and e: "elements lensed_example = []"
    by (simp_all add: lensed_example_def init_attributes_def)
  from C7_orientation [OF build_lensed_example] show ?thesis
    by (auto simp: d p e spec_rotations_def spec_rotation_def)
qed

section \<open>The constructor\<close>




text \<open>
  Claim C8. A constructed grating coupler has exactly one port, under the key
  \<^verbatim>\<open>"output"\<close>: its position is the \<^verbatim>\<open>port\<close> argument as the caller gave it, its direction
  is \<^verbatim>\<open>tk.flip_direction\<close> of the \<^verbatim>\<open>direction\<close> argument. With any other direction the
  constructor returns as well; the port keeps its position, and the geometry is rotated
  as that direction asks.
\<close>

theorem C8_port:
  assumes "GratingCoupler_init flip wgt' port' direction' focus_distance' width' length'
             taper_length' period' dutycycle wavelength' sin_theta' evaluations' = Inr gc"
  shows "portlist gc = [''output'' \<mapsto> (port', flip direction')]
       \<and> dom (portlist gc) = {''output''}
       \<and> (\<forall>d. \<exists>gc2.
             GratingCoupler_init flip wgt' port' d focus_distance' width' length'
               taper_length' period' dutycycle wavelength' sin_theta' evaluations' = Inr gc2
             \<and> portlist gc2 = [''output'' \<mapsto> (port', flip d)]
             \<and> map rotations (elements gc2) = [spec_rotations d port', spec_rotations d port'])"
proof -
  let ?s = "init_attributes wgt' port' direction' focus_distance' width' length' taper_length'
              period' dutycycle wavelength' sin_theta' evaluations' :: 'a GratingCoupler"
  from assms obtain tp where dc: "\<not> (dutycycle > 1 \<or> dutycycle < 0)"
    and tp: "drawn ?s = Inr tp"
    and gc: "gc = ?s\<lparr>elements := [rotated direction' port' (fst tp),
                                   rotated direction' port' (snd tp)],
                     portlist := [''output'' \<mapsto> (port', flip direction')]\<rparr>"
    by (auto simp: init_eq split: if_splits sum.splits)
  have "\<exists>gc2.
          GratingCoupler_init flip wgt' port' d focus_distance' width' length'
            taper_length' period' dutycycle wavelength' sin_theta' evaluations' = Inr gc2
          \<and> portlist gc2 = [''output'' \<mapsto> (port', flip d)]
          \<and> map rotations (elements gc2) = [spec_rotations d port', spec_rotations d port']" for d
    using dc tp rotations_drawn [OF tp]
    by (simp add: init_eq init_attributes_direction [of _ _ d, where direction' = direction']
          drawn_direction rotations_rotated)
  then show ?thesis
    by (simp add: gc)
qed

theorem C8_port_witness:
  "\<exists>gc. GratingCoupler_init flip_direction wgt_example (0, 0) ''EAST'' (Some 20) 20 50 20 1
           0.5 1.55 (sin (pi * 8 / 180)) 99 = Inr gc
        \<and> portlist gc = [''output'' \<mapsto> ((0, 0), Some ''WEST'')]"
proof -
  have "outcome (GratingCoupler_init flip_direction wgt_example (0, 0) ''EAST'' (Some 20) 20 50
          20 1 0.5 1.55 (sin (pi * 8 / 180)) 99) = None"
    by (simp add: outcome_def init_eq drawn_init)
  then obtain gc where gc: "GratingCoupler_init flip_direction wgt_example (0, 0) ''EAST''
      (Some 20) 20 50 20 1 0.5 1.55 (sin (pi * 8 / 180)) 99 = Inr gc"
    by (auto simp: outcome_def split: sum.splits)
  from C8_port [OF gc] have "portlist gc = [''output'' \<mapsto> ((0, 0), Some ''WEST'')]"
    by (simp add: flip_direction_def)
  with gc show ?thesis by blast
qed

text \<open>
  Claim C10. With a focus distance supplied, two constructions that differ in the
  resist of the waveguide template alone end alike: the same exception, or the same
  elements of the cell and the same port list.
\<close>

theorem C10_resist_independent:
  assumes "focus_distance' = Some f"
  shows "geometry (GratingCoupler_init flip (wgt'\<lparr>resist := r1\<rparr>) port' direction'
            focus_distance' width' length' taper_length' period' dutycycle wavelength'
            sin_theta' evaluations')
       = geometry (GratingCoupler_init flip (wgt'\<lparr>resist := r2\<rparr>) port' direction'
            focus_distance' width' length' taper_length' period' dutycycle wavelength'
            sin_theta' evaluations')"
  unfolding geometry_def init_eq drawn_init assms
  by (simp add: lensed_teeth_def lensed_path_def tooth_calls_fun init_attributes_def Let_def)

theorem C10_resist_independent_witness:
  "geometry (GratingCoupler_init flip_direction (wgt_example\<lparr>resist := ''-''\<rparr>) (0, 0) ''EAST''
      (Some 20) 20 50 20 1 0.5 1.55 (sin (pi * 8 / 180)) 99)
   = geometry (GratingCoupler_init flip_direction (wgt_example\<lparr>resist := ''+''\<rparr>) (0, 0) ''EAST''
      (Some 20) 20 50 20 1 0.5 1.55 (sin (pi * 8 / 180)) 99)"
  by (rule C10_resist_independent [OF refl])

section \<open>The focusing grating: teeth and taper\<close>




text \<open>
  Claim C5, as amended. In the focusing mode, whenever \<^verbatim>\<open>build_cell\<close> returns, it has
  added the curved teeth and a path object at the width of the waveguide that starts at
  the port and has no segment: the only calls on it are the rotations. The taper length
  is not used: with any other value \<^verbatim>\<open>build_cell\<close> adds the same objects.
\<close>

theorem C5_lensed_path:
  assumes "focus_distance self = Some f" and "build_cell self = Inr gc"
  shows "\<exists>teeth path.
           elements gc = elements self @ [teeth, path]
           \<and> path = \<lparr>ctor = Path (wg_width (wgt self)) (port self) None None,
                      calls = rotation_calls (direction self) (port self)\<rparr>
           \<and> segment_lengths path = []
           \<and> int (length (curves teeth)) = \<lfloor>length_gc self / period self\<rfloor>
           \<and> (\<forall>x. build_cell (self\<lparr>taper_length := x\<rparr>) = Inr (gc\<lparr>taper_length := x\<rparr>))"
proof -
  let ?n = "\<lfloor>length_gc self / period self\<rfloor>"
  let ?t = "rotated (direction self) (port self) (lensed_teeth self ?n f)"
  let ?p = "rotated (direction self) (port self) (lensed_path self)"
  from build_cell_lensed [OF assms(1)] assms(2)
  have n: "1 \<le> ?n" and p: "period self \<noteq> 0" and f: "\<not> f \<le> 0"
    and gc: "gc = self\<lparr>elements := elements self @ [?t, ?p]\<rparr>"
    by (auto simp: raise_def split: if_splits)
  have 1: "?p = \<lparr>ctor = Path (wg_width (wgt self)) (port self) None None,
                  calls = rotation_calls (direction self) (port self)\<rparr>"
    by (simp add: rotated_def lensed_path_def)
  have 2: "segment_lengths ?p = []"
    by (simp add: segment_lengths_def 1 segment_rotation_calls)
  have 3: "int (length (curves ?t)) = ?n"
    using n by (simp add: curves_lensed_teeth)
  have 4: "build_cell (self\<lparr>taper_length := x\<rparr>) = Inr (gc\<lparr>taper_length := x\<rparr>)" for x
  proof -
    have "focus_distance (self\<lparr>taper_length := x\<rparr>) = Some f"
      using assms(1) by simp
    from build_cell_lensed [OF this] n p f show ?thesis
      by (simp add: gc lensed_teeth_def lensed_path_def tooth_calls_fun Let_def)
  qed
  from 1 2 3 4 show ?thesis
    by (intro exI [of _ ?t] exI [of _ ?p]) (simp add: gc)
qed

theorem C5_lensed_path_witness:
  "segment_lengths (rotated ''EAST'' (0, 0) (lensed_path lensed_example)) = []
   \<and> rotated ''EAST'' (0, 0) (lensed_path lensed_example)
     = \<lparr>ctor = Path 2 (0, 0) None None, calls = [Rotate (- pi / 2) (0, 0)]\<rparr>"
proof -
  have f: "focus_distance lensed_example = Some 20"
    by (simp add: lensed_example_def init_attributes_def)
  have a: "elements lensed_example = []" "port lensed_example = (0, 0)"
    "wg_width (wgt lensed_example) = 2" "direction lensed_example = ''EAST''"
    by (simp_all add: lensed_example_def init_attributes_def wgt_example_def)
  from C5_lensed_path [OF f build_lensed_example] show ?thesis
    by (auto simp: a rotation_calls_def)
qed

text \<open>
  The claim as stated fails: in the module's own focusing example, with the taper
  length 20, neither object of the cell has a segment, where the straight grating with
  the same arguments draws a taper segment of length 20.
\<close>

theorem C5_counterexample:
  "map segment_lengths (built (GratingCoupler_init flip_direction wgt_example (0, 0) ''EAST''
      (Some 20) 20 50 20 1 0.5 1.55 (sin (pi * 8 / 180)) 99)) = [[], []]
   \<and> map segment_lengths (built (GratingCoupler_init flip_direction wgt_example (0, 0) ''EAST''
      None 20 50 20 1 0.5 1.55 (sin (pi * 8 / 180)) 99)) = [[], [20]]"
proof -
  have t: "segment_lengths (rotated d c (lensed_teeth self n f)) = []"
    for self :: "string option GratingCoupler" and d c n f
    by (simp add: segment_lengths_def rotated_def lensed_teeth_def Let_def
          segment_rotation_calls tooth_calls_def)
  have p: "segment_lengths (rotated d c (lensed_path self)) = []"
    and st: "segment_lengths (rotated d c (straight_teeth self n duty)) = []"
    and sp: "resist_gc self = ''-'' \<Longrightarrow>
             segment_lengths (rotated d c (straight_path self)) = [taper_length self]"
    for self :: "string option GratingCoupler" and d c n duty
    by (simp_all add: segment_lengths_def rotated_def lensed_path_def straight_teeth_def
          straight_path_def segment_rotation_calls)
  have r: "resist_gc (init_attributes wgt_example (0, 0) ''EAST'' None 20 50 20 1 (1 / 2)
             (31 / 20) (sin (2 * pi / 45)) 99 :: string option GratingCoupler) = ''-''"
    "taper_length (init_attributes wgt_example (0, 0) ''EAST'' None 20 50 20 1 (1 / 2)
             (31 / 20) (sin (2 * pi / 45)) 99 :: string option GratingCoupler) = 20"
    "resist wgt_example = ''-''"
    by (simp_all add: init_attributes_def wgt_example_def)
  show ?thesis
    by (simp add: built_def init_eq drawn_init t p st sp r)
qed

end
